theory Spec2Isabelle
  imports Main
begin

section \<open>JavaScript values, errors and effects\<close>

text \<open>
  The values that flow through \<^verbatim>\<open>VaultKubernetesAuth.js\<close>: the configuration object, the
  body of the login request and the response of the store are plain JSON-like JavaScript
  values. An object is an association list of its own properties.
\<close>

datatype js_value =
    JUndefined
  | JNull
  | JBoolean bool
  | JNumber int
  | JString string
  | JObject "(string \<times> js_value) list"

text \<open>
  What a failing operation carries. \<open>AuthError\<close>, \<open>ConfigurationError\<close> and
  \<open>TransportError\<close> are the kinds of the error taxonomy; \<open>TypeError\<close> is JavaScript's
  own exception for a property read on \<^verbatim>\<open>undefined\<close> or \<^verbatim>\<open>null\<close> (it carries the
  property name), and \<open>FsError\<close> is the exception \<^verbatim>\<open>fs.readFileSync\<close> raises for a path
  it cannot read (it carries the path).
\<close>

datatype error =
    AuthError string
  | ConfigurationError string
  | TransportError string
  | TypeError string
  | FsError string

fun classified :: "error \<Rightarrow> bool" where
  "classified (AuthError m) = True"
| "classified (ConfigurationError m) = True"
| "classified e = False"

text \<open>
  A property read \<^verbatim>\<open>v.k\<close>, for the property names the source reads (\<^verbatim>\<open>role\<close>,
  \<^verbatim>\<open>auth\<close>, \<^verbatim>\<open>client_token\<close>), which no built-in prototype defines: it throws on
  \<^verbatim>\<open>undefined\<close> and \<^verbatim>\<open>null\<close>, finds an own property of an object, and is
  \<^verbatim>\<open>undefined\<close> everywhere else.
\<close>

fun get_prop :: "js_value \<Rightarrow> string \<Rightarrow> error + js_value" where
  "get_prop JUndefined k = Inl (TypeError k)"
| "get_prop JNull k = Inl (TypeError k)"
| "get_prop (JObject kvs) k = Inr (case map_of kvs k of None \<Rightarrow> JUndefined | Some v \<Rightarrow> v)"
| "get_prop v k = Inr JUndefined"

text \<open>
  How a call ends: a synchronous \<^verbatim>\<open>throw\<close> out of the method, a promise that rejects, or
  a promise that resolves.
\<close>

datatype 'a outcome = Thrown error | Rejected error | Resolved 'a

text \<open>
  The observable effects of a call, in the order they happen: a message to the injected
  logger (\<^verbatim>\<open>this._log.info\<close>, \<^verbatim>\<open>this._log.debug\<close>: format string and arguments), a line
  on standard output (\<^verbatim>\<open>console.log\<close>), a file read and a request handed to the transport
  (method, path, body).
\<close>

datatype event =
    LogInfo string "js_value list"
  | LogDebug string "js_value list"
  | ConsoleLog string
  | ReadFile string
  | MakeRequest string string js_value

fun is_logger :: "event \<Rightarrow> bool" where
  "is_logger (LogInfo f args) = True"
| "is_logger (LogDebug f args) = True"
| "is_logger e = False"

fun is_info :: "event \<Rightarrow> bool" where
  "is_info (LogInfo f args) = True"
| "is_info e = False"

fun is_log :: "event \<Rightarrow> bool" where
  "is_log (LogInfo f args) = True"
| "is_log (LogDebug f args) = True"
| "is_log (ConsoleLog s) = True"
| "is_log e = False"

fun is_io :: "event \<Rightarrow> bool" where
  "is_io (ReadFile p) = True"
| "is_io (MakeRequest m p b) = True"
| "is_io e = False"

definition logger_output :: "event list \<Rightarrow> event list" where
  "logger_output tr = filter is_logger tr"

definition info_output :: "event list \<Rightarrow> event list" where
  "info_output tr = filter is_info tr"

definition log_output :: "event list \<Rightarrow> event list" where
  "log_output tr = filter is_log tr"

definition io_calls :: "event list \<Rightarrow> event list" where
  "io_calls tr = filter is_io tr"

section \<open>The collaborators of the backend\<close>

text \<open>
  The filesystem (\<^verbatim>\<open>fs.readFileSync(path).toString()\<close>: the content, or \<open>None\<close> where the
  read throws), the request transport (\<^verbatim>\<open>this.__apiClient.makeRequest(method, path, body)\<close>:
  a promise that resolves to the response or rejects) and the inherited
  \<^verbatim>\<open>this._getTokenEntity(token)\<close> of \<^verbatim>\<open>VaultBaseAuth\<close>, which is not part of the source at
  hand and is therefore a parameter: a promise of a token entity of some type \<open>'tok\<close>.
\<close>

record 'tok env =
  readFileSync :: "string \<Rightarrow> string option"
  makeRequest :: "string \<Rightarrow> string \<Rightarrow> js_value \<Rightarrow> error + js_value"
  getTokenEntity :: "js_value \<Rightarrow> error + 'tok"

section \<open>VaultKubernetesAuth\<close>

text \<open>
  The fields of an instance: \<^verbatim>\<open>this._mount\<close>, \<^verbatim>\<open>this.__role\<close>, \<^verbatim>\<open>this.__filePath\<close>.
  The transport and the logger, which the base constructor stores as well, are the
  environment of the call and the trace of events.
\<close>

record k8s_auth =
  mount :: string
  role :: js_value
  filePath :: string

definition token_path :: string where
  "token_path = ''/var/run/secrets/kubernetes.io/serviceaccount/token''"

text \<open>
  \<^verbatim>\<open>mount || 'kubernetes'\<close> for the documented type of \<^verbatim>\<open>mount\<close>, a string that may be
  left out: \<open>None\<close> is \<^verbatim>\<open>undefined\<close>, and the empty string is falsy as well.
\<close>

definition mount_or_default :: "string option \<Rightarrow> string" where
  "mount_or_default mnt =
     (case mnt of None \<Rightarrow> ''kubernetes'' | Some s \<Rightarrow> if s = [] then ''kubernetes'' else s)"

text \<open>
  Modelled from the spec: the constructor of \<^verbatim>\<open>VaultBaseAuth\<close>, which is not part of the
  source at hand. Each backend receives the request transport, the logger and a mount-point
  name at construction; the base class keeps the name, and the subclass reads it back as
  \<^verbatim>\<open>this._mount\<close>.
\<close>

definition VaultBaseAuth :: "string \<Rightarrow> string" where
  "VaultBaseAuth mnt = mnt"

text \<open>
  The constructor: \<^verbatim>\<open>super(apiClient, logger, mount || 'kubernetes')\<close>, then
  \<^verbatim>\<open>config.role\<close> is read and the fixed path is set. Nothing is checked, and neither the
  filesystem nor the transport nor the logger is called.
\<close>

definition VaultKubernetesAuth :: "js_value \<Rightarrow> string option \<Rightarrow> error + k8s_auth" where
  "VaultKubernetesAuth config mnt =
     (case get_prop config ''role'' of
        Inl e \<Rightarrow> Inl e
      | Inr r \<Rightarrow>
          Inr \<lparr>mount = VaultBaseAuth (mount_or_default mnt), role = r, filePath = token_path\<rparr>)"

definition login_path :: "k8s_auth \<Rightarrow> string" where
  "login_path a = ''/auth/'' @ mount a @ ''/login''"

definition login_body :: "k8s_auth \<Rightarrow> string \<Rightarrow> js_value" where
  "login_body a jwt = JObject [(''role'', role a), (''jwt'', JString jwt)]"

text \<open>\<^verbatim>\<open>res.auth.client_token\<close>: two property reads, either of which may throw.\<close>

definition client_token :: "js_value \<Rightarrow> error + js_value" where
  "client_token res =
     (case get_prop res ''auth'' of
        Inl e \<Rightarrow> Inl e
      | Inr au \<Rightarrow> get_prop au ''client_token'')"

text \<open>
  \<^verbatim>\<open>_authenticate()\<close>. The info message takes \<^verbatim>\<open>this.__roleId\<close>, a field that nothing
  assigns, so its argument is \<^verbatim>\<open>undefined\<close>. The file is read while the argument of
  \<^verbatim>\<open>Promise.resolve\<close> is evaluated, so a failing read is thrown out of the method before a
  promise exists. Whatever fails inside a \<^verbatim>\<open>.then\<close> callback rejects the promise.
\<close>

definition authenticate :: "'tok env \<Rightarrow> k8s_auth \<Rightarrow> event list \<times> 'tok outcome" where
  "authenticate env a =
     (let t0 = [LogInfo ''making authentication request: role_id=%s'' [JUndefined],
                ReadFile (filePath a)]
      in case readFileSync env (filePath a) of
           None \<Rightarrow> (t0, Thrown (FsError (filePath a)))
         | Some jwt \<Rightarrow>
             (let t1 = t0 @ [ConsoleLog (''File is contains token '' @ jwt),
                            MakeRequest ''POST'' (login_path a) (login_body a jwt)]
              in case makeRequest env ''POST'' (login_path a) (login_body a jwt) of
                   Inl e \<Rightarrow> (t1, Rejected e)
                 | Inr res \<Rightarrow>
                     (case client_token res of
                        Inl e \<Rightarrow> (t1, Rejected e)
                      | Inr tok \<Rightarrow>
                          (let t2 = t1 @ [LogDebug ''receive token: %s'' [tok]]
                           in case getTokenEntity env tok of
                                Inl e \<Rightarrow> (t2, Rejected e)
                              | Inr t \<Rightarrow> (t2, Resolved t)))))"

section \<open>Concrete environments\<close>

text \<open>
  A pod whose service-account file holds \<open>jwt\<close>, in front of a store that answers every
  login with the client token \<^verbatim>\<open>s.abc\<close>; the token entity is the client token itself.
\<close>

definition pod_env :: "string \<Rightarrow> js_value env" where
  "pod_env jwt =
     \<lparr>readFileSync = (\<lambda>p. if p = token_path then Some jwt else None),
      makeRequest = (\<lambda>m p b. Inr (JObject [(''auth'', JObject [(''client_token'', JString ''s.abc'')])])),
      getTokenEntity = (\<lambda>tok. Inr tok)\<rparr>"

text \<open>The same store, reached from a machine where no file can be read.\<close>

definition no_file_env :: "js_value env" where
  "no_file_env =
     \<lparr>readFileSync = (\<lambda>p. None),
      makeRequest = (\<lambda>m p b. Inr (JObject [(''auth'', JObject [(''client_token'', JString ''s.abc'')])])),
      getTokenEntity = (\<lambda>tok. Inr tok)\<rparr>"

text \<open>
  A pod in front of a store that answers a login with a client token made from the JWT it
  was sent (and with no \<^verbatim>\<open>auth\<close> at all when the body holds no JWT).
\<close>

definition echo_env :: "string \<Rightarrow> js_value env" where
  "echo_env jwt =
     \<lparr>readFileSync = (\<lambda>p. if p = token_path then Some jwt else None),
      makeRequest = (\<lambda>m p b.
        case get_prop b ''jwt'' of
          Inr (JString s) \<Rightarrow>
            Inr (JObject [(''auth'', JObject [(''client_token'', JString (''token-for-'' @ s))])])
        | _ \<Rightarrow> Inr (JObject [])),
      getTokenEntity = (\<lambda>tok. Inr tok)\<rparr>"

section \<open>Injection of secrets into a configuration tree\<close>














section \<open>Properties of the Kubernetes backend\<close>

lemma VaultKubernetesAuth_fields:
  assumes "VaultKubernetesAuth config mnt = Inr a"
  shows "mount a = mount_or_default mnt" and "filePath a = token_path"
    and "get_prop config ''role'' = Inr (role a)"
  using assms by (auto simp: VaultKubernetesAuth_def VaultBaseAuth_def split: sum.splits)

lemma authenticate_Resolved:
  assumes "authenticate env a = (tr, Resolved t)"
  shows "\<exists>jwt res tok.
           readFileSync env (filePath a) = Some jwt \<and>
           makeRequest env ''POST'' (login_path a) (login_body a jwt) = Inr res \<and>
           client_token res = Inr tok \<and>
           getTokenEntity env tok = Inr t \<and>
           tr = [LogInfo ''making authentication request: role_id=%s'' [JUndefined],
                 ReadFile (filePath a),
                 ConsoleLog (''File is contains token '' @ jwt),
                 MakeRequest ''POST'' (login_path a) (login_body a jwt),
                 LogDebug ''receive token: %s'' [tok]]"
  using assms
  by (auto simp: authenticate_def Let_def split: option.splits sum.splits)

lemma authenticate_requests:
  assumes "MakeRequest meth p body \<in> set (fst (authenticate env a))"
  shows "\<exists>jwt. readFileSync env (filePath a) = Some jwt \<and>
           meth = ''POST'' \<and> p = login_path a \<and> body = login_body a jwt"
  using assms
  by (auto simp: authenticate_def Let_def split: option.splits sum.splits)

lemma authenticate_unreadable:
  assumes "readFileSync env (filePath a) = None"
  shows "authenticate env a =
           ([LogInfo ''making authentication request: role_id=%s'' [JUndefined],
             ReadFile (filePath a)],
            Thrown (FsError (filePath a)))"
  using assms by (simp add: authenticate_def)

lemma authenticate_readable:
  assumes "readFileSync env (filePath a) = Some jwt"
  shows "fst (authenticate env a) =
           [LogInfo ''making authentication request: role_id=%s'' [JUndefined],
            ReadFile (filePath a),
            ConsoleLog (''File is contains token '' @ jwt),
            MakeRequest ''POST'' (login_path a) (login_body a jwt)] @
           (case makeRequest env ''POST'' (login_path a) (login_body a jwt) of
              Inl e \<Rightarrow> []
            | Inr res \<Rightarrow>
                (case client_token res of
                   Inl e \<Rightarrow> []
                 | Inr tok \<Rightarrow> [LogDebug ''receive token: %s'' [tok]]))"
    and "snd (authenticate env a) =
           (case makeRequest env ''POST'' (login_path a) (login_body a jwt) of
              Inl e \<Rightarrow> Rejected e
            | Inr res \<Rightarrow>
                (case client_token res of
                   Inl e \<Rightarrow> Rejected e
                 | Inr tok \<Rightarrow>
                     (case getTokenEntity env tok of
                        Inl e \<Rightarrow> Rejected e
                      | Inr t \<Rightarrow> Resolved t)))"
  using assms by (simp_all add: authenticate_def Let_def split: sum.splits)

lemma logger_output_readable:
  assumes "readFileSync env (filePath a) = Some jwt"
  shows "logger_output (fst (authenticate env a)) =
           LogInfo ''making authentication request: role_id=%s'' [JUndefined] #
           (case makeRequest env ''POST'' (login_path a) (login_body a jwt) of
              Inl e \<Rightarrow> []
            | Inr res \<Rightarrow>
                (case client_token res of
                   Inl e \<Rightarrow> []
                 | Inr tok \<Rightarrow> [LogDebug ''receive token: %s'' [tok]]))"
  unfolding authenticate_readable(1) [OF assms] logger_output_def
  by (simp split: sum.splits)

lemma info_output_readable:
  assumes "readFileSync env (filePath a) = Some jwt"
  shows "info_output (fst (authenticate env a)) =
           [LogInfo ''making authentication request: role_id=%s'' [JUndefined]]"
  unfolding authenticate_readable(1) [OF assms] info_output_def
  by (simp split: sum.splits)

lemma io_calls_readable:
  assumes "readFileSync env (filePath a) = Some jwt"
  shows "io_calls (fst (authenticate env a)) =
           [ReadFile (filePath a), MakeRequest ''POST'' (login_path a) (login_body a jwt)]"
  unfolding authenticate_readable(1) [OF assms] io_calls_def
  by (simp split: sum.splits)

lemma pod_env_run:
  "authenticate (pod_env jwt) \<lparr>mount = m, role = r, filePath = token_path\<rparr> =
     ([LogInfo ''making authentication request: role_id=%s'' [JUndefined],
       ReadFile token_path,
       ConsoleLog (''File is contains token '' @ jwt),
       MakeRequest ''POST'' (''/auth/'' @ m @ ''/login'')
         (JObject [(''role'', r), (''jwt'', JString jwt)]),
       LogDebug ''receive token: %s'' [JString ''s.abc'']],
      Resolved (JString ''s.abc''))"
  by (simp add: authenticate_def pod_env_def login_path_def login_body_def client_token_def)

lemma construct_app:
  "VaultKubernetesAuth (JObject [(''role'', JString ''app'')]) None =
     Inr \<lparr>mount = ''kubernetes'', role = JString ''app'', filePath = token_path\<rparr>"
  by (simp add: VaultKubernetesAuth_def VaultBaseAuth_def mount_or_default_def)

subsection \<open>The log and the credential\<close>

text \<open>
  Claim C1, as amended. The claim says that neither the JWT read from the file nor the
  received client token ever reaches a log. What holds of the messages sent to the injected
  logger when the token file is readable: they do not depend on the JWT. Two runs whose
  files hold different JWTs, and whose login requests the store answers alike, send the
  same messages to the logger and end with the same outcome. At info severity the logger
  receives one message, whose argument is \<^verbatim>\<open>undefined\<close>, whatever the JWT and the
  response are; the received client token is the argument of the one debug message,
  \<^verbatim>\<open>receive token: %s\<close>, which is sent once the response holds a client token.
\<close>

theorem logger_output_independent_of_jwt:
  assumes "readFileSync env (filePath a) = Some jwt"
      and "readFileSync env' (filePath a) = Some jwt'"
      and "makeRequest env' ''POST'' (login_path a) (login_body a jwt') =
           makeRequest env ''POST'' (login_path a) (login_body a jwt)"
      and "getTokenEntity env' = getTokenEntity env"
  shows "logger_output (fst (authenticate env' a)) = logger_output (fst (authenticate env a)) \<and>
         snd (authenticate env' a) = snd (authenticate env a) \<and>
         logger_output (fst (authenticate env a)) =
           LogInfo ''making authentication request: role_id=%s'' [JUndefined] #
           (case makeRequest env ''POST'' (login_path a) (login_body a jwt) of
              Inl e \<Rightarrow> []
            | Inr res \<Rightarrow>
                (case client_token res of
                   Inl e \<Rightarrow> []
                 | Inr tok \<Rightarrow> [LogDebug ''receive token: %s'' [tok]])) \<and>
         info_output (fst (authenticate env a)) =
           [LogInfo ''making authentication request: role_id=%s'' [JUndefined]]"
proof (intro conjI)
  show "info_output (fst (authenticate env a)) =
          [LogInfo ''making authentication request: role_id=%s'' [JUndefined]]"
    by (rule info_output_readable [OF assms(1)])
next
  show "logger_output (fst (authenticate env' a)) = logger_output (fst (authenticate env a))"
    unfolding logger_output_readable [OF assms(1)] logger_output_readable [OF assms(2)] assms(3) ..
  show "snd (authenticate env' a) = snd (authenticate env a)"
    unfolding authenticate_readable(2) [OF assms(1)] authenticate_readable(2) [OF assms(2)]
      assms(3) assms(4) ..
  show "logger_output (fst (authenticate env a)) =
           LogInfo ''making authentication request: role_id=%s'' [JUndefined] #
           (case makeRequest env ''POST'' (login_path a) (login_body a jwt) of
              Inl e \<Rightarrow> []
            | Inr res \<Rightarrow>
                (case client_token res of
                   Inl e \<Rightarrow> []
                 | Inr tok \<Rightarrow> [LogDebug ''receive token: %s'' [tok]]))"
    by (rule logger_output_readable [OF assms(1)])
qed

text \<open>Two pods with different JWTs in front of the same store.\<close>

theorem logger_output_independent_of_jwt_witness:
  "readFileSync (pod_env ''jwt-A'') token_path = Some ''jwt-A'' \<and>
   readFileSync (pod_env ''jwt-B'') token_path = Some ''jwt-B'' \<and>
   ''jwt-A'' \<noteq> ''jwt-B'' \<and>
   logger_output (fst (authenticate (pod_env ''jwt-B'')
       \<lparr>mount = ''kubernetes'', role = JString ''app'', filePath = token_path\<rparr>)) =
   logger_output (fst (authenticate (pod_env ''jwt-A'')
       \<lparr>mount = ''kubernetes'', role = JString ''app'', filePath = token_path\<rparr>)) \<and>
   logger_output (fst (authenticate (pod_env ''jwt-A'')
       \<lparr>mount = ''kubernetes'', role = JString ''app'', filePath = token_path\<rparr>)) =
     [LogInfo ''making authentication request: role_id=%s'' [JUndefined],
      LogDebug ''receive token: %s'' [JString ''s.abc'']]"
proof -
  let ?a = "\<lparr>mount = ''kubernetes'', role = JString ''app'', filePath = token_path\<rparr>"
  have r1: "readFileSync (pod_env ''jwt-A'') (filePath ?a) = Some ''jwt-A''"
    by (simp add: pod_env_def)
  have r2: "readFileSync (pod_env ''jwt-B'') (filePath ?a) = Some ''jwt-B''"
    by (simp add: pod_env_def)
  have q: "makeRequest (pod_env ''jwt-B'') ''POST'' (login_path ?a) (login_body ?a ''jwt-B'') =
           makeRequest (pod_env ''jwt-A'') ''POST'' (login_path ?a) (login_body ?a ''jwt-A'')"
    by (simp add: pod_env_def)
  have g: "getTokenEntity (pod_env ''jwt-B'') = getTokenEntity (pod_env ''jwt-A'')"
    by (simp add: pod_env_def)
  have m: "makeRequest (pod_env ''jwt-A'') ''POST'' (login_path ?a) (login_body ?a ''jwt-A'') =
           Inr (JObject [(''auth'', JObject [(''client_token'', JString ''s.abc'')])])"
    by (simp add: pod_env_def)
  have c: "client_token (JObject [(''auth'', JObject [(''client_token'', JString ''s.abc'')])]) =
           Inr (JString ''s.abc'')"
    by (simp add: client_token_def)
  from logger_output_independent_of_jwt [OF r1 r2 q g] r1 r2 show ?thesis
    by (simp add: m c)
qed

text \<open>
  The claim as stated fails: the line on standard output holds the JWT, so the log output
  of two runs that differ only in the JWT differs, and the debug message holds the client
  token.
\<close>

theorem credential_logged_counterexample:
  "log_output (fst (authenticate (pod_env ''jwt-A'')
       \<lparr>mount = ''kubernetes'', role = JString ''app'', filePath = token_path\<rparr>)) =
     [LogInfo ''making authentication request: role_id=%s'' [JUndefined],
      ConsoleLog ''File is contains token jwt-A'',
      LogDebug ''receive token: %s'' [JString ''s.abc'']] \<and>
   log_output (fst (authenticate (pod_env ''jwt-B'')
       \<lparr>mount = ''kubernetes'', role = JString ''app'', filePath = token_path\<rparr>)) =
     [LogInfo ''making authentication request: role_id=%s'' [JUndefined],
      ConsoleLog ''File is contains token jwt-B'',
      LogDebug ''receive token: %s'' [JString ''s.abc'']] \<and>
   log_output (fst (authenticate (pod_env ''jwt-A'')
       \<lparr>mount = ''kubernetes'', role = JString ''app'', filePath = token_path\<rparr>)) \<noteq>
   log_output (fst (authenticate (pod_env ''jwt-B'')
       \<lparr>mount = ''kubernetes'', role = JString ''app'', filePath = token_path\<rparr>))"
  by (simp add: pod_env_run log_output_def)

subsection \<open>An unreadable token file\<close>

text \<open>
  Claim C2, as amended. The claim says that an unreadable token file makes authentication
  fail with an \<open>AuthError\<close> (or construction with a \<open>ConfigurationError\<close>). What holds: the
  exception of the filesystem leaves \<^verbatim>\<open>_authenticate\<close> as it is, thrown synchronously and
  not as a rejected promise, after the info message and the attempted read and before any
  line on standard output and any request. It is neither an \<open>AuthError\<close> nor a
  \<open>ConfigurationError\<close>.
\<close>

theorem unreadable_token_file_throws:
  assumes "readFileSync env (filePath a) = None"
  shows "authenticate env a =
           ([LogInfo ''making authentication request: role_id=%s'' [JUndefined],
             ReadFile (filePath a)],
            Thrown (FsError (filePath a))) \<and>
         \<not> classified (FsError (filePath a))"
  using authenticate_unreadable [OF assms] by simp

theorem unreadable_token_file_throws_witness:
  "readFileSync no_file_env
     (filePath \<lparr>mount = ''kubernetes'', role = JString ''app'', filePath = token_path\<rparr>) = None \<and>
   authenticate no_file_env
     \<lparr>mount = ''kubernetes'', role = JString ''app'', filePath = token_path\<rparr> =
     ([LogInfo ''making authentication request: role_id=%s'' [JUndefined], ReadFile token_path],
      Thrown (FsError token_path))"
proof -
  have h: "readFileSync no_file_env
             (filePath \<lparr>mount = ''kubernetes'', role = JString ''app'', filePath = token_path\<rparr>) = None"
    by (simp add: no_file_env_def)
  from unreadable_token_file_throws [OF h] h show ?thesis by simp
qed

text \<open>
  The claim as stated fails: construction succeeds, and authentication ends with the
  filesystem's exception.
\<close>

theorem unreadable_token_file_counterexample:
  "VaultKubernetesAuth (JObject [(''role'', JString ''app'')]) None =
     Inr \<lparr>mount = ''kubernetes'', role = JString ''app'', filePath = token_path\<rparr> \<and>
   readFileSync no_file_env token_path = None \<and>
   snd (authenticate no_file_env
          \<lparr>mount = ''kubernetes'', role = JString ''app'', filePath = token_path\<rparr>) =
     Thrown (FsError token_path) \<and>
   \<not> classified (FsError token_path)"
  by (simp add: construct_app no_file_env_def authenticate_def)

subsection \<open>A configuration without a role\<close>

lemma VaultKubernetesAuth_fails_iff:
  "VaultKubernetesAuth config mnt = Inl e \<longleftrightarrow>
     (config = JUndefined \<or> config = JNull) \<and> e = TypeError ''role''"
  by (cases config) (auto simp: VaultKubernetesAuth_def)

text \<open>
  Claim C3, as amended. The claim says that a configuration that is malformed or lacks a
  required field makes construction fail with a \<open>ConfigurationError\<close> before any network
  call. What holds: construction checks nothing. For a configuration object without a role
  it succeeds, with \<^verbatim>\<open>undefined\<close> as the role, and the missing role reaches the store: once
  the token file is readable, authentication reads it and posts the login request with the
  role \<^verbatim>\<open>undefined\<close>. Construction fails exactly when the configuration itself is
  \<^verbatim>\<open>undefined\<close> or \<^verbatim>\<open>null\<close>, and then with JavaScript's \<open>TypeError\<close> for the read of
  \<^verbatim>\<open>config.role\<close>, which is neither a \<open>ConfigurationError\<close> nor an \<open>AuthError\<close>.
\<close>

theorem construction_validates_nothing:
  assumes "map_of kvs ''role'' = None"
      and "readFileSync env token_path = Some jwt"
  shows "VaultKubernetesAuth (JObject kvs) mnt =
           Inr \<lparr>mount = mount_or_default mnt, role = JUndefined, filePath = token_path\<rparr> \<and>
         io_calls (fst (authenticate env
              \<lparr>mount = mount_or_default mnt, role = JUndefined, filePath = token_path\<rparr>)) =
           [ReadFile token_path,
            MakeRequest ''POST'' (''/auth/'' @ mount_or_default mnt @ ''/login'')
              (JObject [(''role'', JUndefined), (''jwt'', JString jwt)])] \<and>
         (VaultKubernetesAuth config mnt = Inl e \<longleftrightarrow>
            (config = JUndefined \<or> config = JNull) \<and> e = TypeError ''role'') \<and>
         VaultKubernetesAuth JUndefined mnt = Inl (TypeError ''role'') \<and>
         VaultKubernetesAuth JNull mnt = Inl (TypeError ''role'') \<and>
         \<not> classified (TypeError ''role'')"
proof -
  let ?a = "\<lparr>mount = mount_or_default mnt, role = JUndefined, filePath = token_path\<rparr>"
  have c: "VaultKubernetesAuth (JObject kvs) mnt = Inr ?a"
    using assms(1) by (simp add: VaultKubernetesAuth_def VaultBaseAuth_def)
  have rd: "readFileSync env (filePath ?a) = Some jwt"
    using assms(2) by simp
  have io: "io_calls (fst (authenticate env ?a)) =
          [ReadFile token_path,
           MakeRequest ''POST'' (''/auth/'' @ mount_or_default mnt @ ''/login'')
             (JObject [(''role'', JUndefined), (''jwt'', JString jwt)])]"
    unfolding io_calls_readable [OF rd] by (simp add: login_path_def login_body_def)
  have f: "VaultKubernetesAuth config mnt = Inl e \<longleftrightarrow>
            (config = JUndefined \<or> config = JNull) \<and> e = TypeError ''role''"
    by (rule VaultKubernetesAuth_fails_iff)
  have u: "VaultKubernetesAuth JUndefined mnt = Inl (TypeError ''role'')"
    by (simp add: VaultKubernetesAuth_def)
  have l: "VaultKubernetesAuth JNull mnt = Inl (TypeError ''role'')"
    by (simp add: VaultKubernetesAuth_def)
  have n: "\<not> classified (TypeError ''role'')"
    by simp
  from c io f u l n show ?thesis by (intro conjI)
qed

text \<open>
  The empty configuration object under the mount \<^verbatim>\<open>k8s\<close>; \<^verbatim>\<open>null\<close> and \<^verbatim>\<open>undefined\<close> as
  the configuration; and a configuration that is a string, which builds an instance as well.
\<close>

theorem construction_validates_nothing_witness:
  "map_of ([] :: (string \<times> js_value) list) ''role'' = None \<and>
   readFileSync (pod_env ''jwt-A'') token_path = Some ''jwt-A'' \<and>
   VaultKubernetesAuth (JObject []) (Some ''k8s'') =
     Inr \<lparr>mount = ''k8s'', role = JUndefined, filePath = token_path\<rparr> \<and>
   io_calls (fst (authenticate (pod_env ''jwt-A'')
        \<lparr>mount = ''k8s'', role = JUndefined, filePath = token_path\<rparr>)) =
     [ReadFile token_path,
      MakeRequest ''POST'' ''/auth/k8s/login''
        (JObject [(''role'', JUndefined), (''jwt'', JString ''jwt-A'')])] \<and>
   VaultKubernetesAuth JUndefined (Some ''k8s'') = Inl (TypeError ''role'') \<and>
   VaultKubernetesAuth JNull (Some ''k8s'') = Inl (TypeError ''role'') \<and>
   VaultKubernetesAuth (JString ''app'') (Some ''k8s'') \<noteq> Inl (TypeError ''role'')"
proof -
  have h1: "map_of ([] :: (string \<times> js_value) list) ''role'' = None"
    by simp
  have h2: "readFileSync (pod_env ''jwt-A'') token_path = Some ''jwt-A''"
    by (simp add: pod_env_def)
  note t = construction_validates_nothing [OF h1 h2, of "Some ''k8s''"]
  have s: "VaultKubernetesAuth (JString ''app'') (Some ''k8s'') \<noteq> Inl (TypeError ''role'')"
    using t [of "JString ''app''" "TypeError ''role''"] by simp
  from t [of JUndefined "TypeError ''role''"] h1 h2 s show ?thesis
    by (simp add: mount_or_default_def)
qed

text \<open>
  The claim as stated fails: the empty configuration object builds an instance, and its
  authentication sends the login request.
\<close>

theorem missing_role_counterexample:
  "VaultKubernetesAuth (JObject []) None =
     Inr \<lparr>mount = ''kubernetes'', role = JUndefined, filePath = token_path\<rparr> \<and>
   io_calls (fst (authenticate (pod_env ''jwt-A'')
                    \<lparr>mount = ''kubernetes'', role = JUndefined, filePath = token_path\<rparr>)) =
     [ReadFile token_path,
      MakeRequest ''POST'' ''/auth/kubernetes/login''
        (JObject [(''role'', JUndefined), (''jwt'', JString ''jwt-A'')])]"
  by (simp add: VaultKubernetesAuth_def VaultBaseAuth_def mount_or_default_def pod_env_run
      io_calls_def)

subsection \<open>The login request\<close>

lemma client_token_reads:
  "client_token res = Inr tok \<longleftrightarrow>
     (\<exists>au. get_prop res ''auth'' = Inr au \<and> get_prop au ''client_token'' = Inr tok)"
  by (simp add: client_token_def split: sum.splits)

text \<open>
  Claim C4. Whenever authentication of a constructed backend succeeds, it has read the
  service-account token from the one well-known path, the one request that
  \<^verbatim>\<open>_authenticate\<close> itself has handed to the transport is a \<^verbatim>\<open>POST\<close> to
  \<^verbatim>\<open>/auth/<mount>/login\<close> whose body holds the configured role and the token read as
  \<^verbatim>\<open>jwt\<close>, and the result is the token entity that the inherited
  \<^verbatim>\<open>_getTokenEntity\<close> builds from the client token of the response: the property
  \<^verbatim>\<open>client_token\<close> of the property \<^verbatim>\<open>auth\<close> of what the transport answered.
\<close>

theorem kubernetes_login_request:
  assumes "VaultKubernetesAuth config mnt = Inr a"
      and "authenticate env a = (tr, Resolved t)"
  shows "\<exists>jwt r res au tok.
           readFileSync env token_path = Some jwt \<and>
           get_prop config ''role'' = Inr r \<and>
           io_calls tr =
             [ReadFile token_path,
              MakeRequest ''POST'' (''/auth/'' @ mount_or_default mnt @ ''/login'')
                (JObject [(''role'', r), (''jwt'', JString jwt)])] \<and>
           makeRequest env ''POST'' (''/auth/'' @ mount_or_default mnt @ ''/login'')
             (JObject [(''role'', r), (''jwt'', JString jwt)]) = Inr res \<and>
           get_prop res ''auth'' = Inr au \<and>
           get_prop au ''client_token'' = Inr tok \<and>
           getTokenEntity env tok = Inr t"
proof -
  from authenticate_Resolved [OF assms(2)] obtain jwt res tok where
    rd: "readFileSync env (filePath a) = Some jwt" and
    rq: "makeRequest env ''POST'' (login_path a) (login_body a jwt) = Inr res" and
    ct: "client_token res = Inr tok" and
    te: "getTokenEntity env tok = Inr t" and
    tr: "tr = [LogInfo ''making authentication request: role_id=%s'' [JUndefined],
           ReadFile (filePath a),
           ConsoleLog (''File is contains token '' @ jwt),
           MakeRequest ''POST'' (login_path a) (login_body a jwt),
           LogDebug ''receive token: %s'' [tok]]"
    by (elim exE conjE) (rule that)
  from ct [unfolded client_token_reads] obtain au where
    au: "get_prop res ''auth'' = Inr au" and tk: "get_prop au ''client_token'' = Inr tok"
    by (elim exE conjE) (rule that)
  note f = VaultKubernetesAuth_fields [OF assms(1)]
  have p: "login_path a = ''/auth/'' @ mount_or_default mnt @ ''/login''"
    unfolding login_path_def f(1) ..
  have b: "login_body a jwt = JObject [(''role'', role a), (''jwt'', JString jwt)]"
    unfolding login_body_def ..
  have io: "io_calls tr = [ReadFile token_path, MakeRequest ''POST'' (login_path a) (login_body a jwt)]"
    unfolding tr io_calls_def f(2) by simp
  from rd have rd': "readFileSync env token_path = Some jwt"
    unfolding f(2) .
  show ?thesis
    using rd' f(3) io [unfolded p b] rq [unfolded p b] au tk te
    by (intro exI conjI)
qed

text \<open>
  A pod in front of a store that answers the login with the JWT it was sent, marked, as
  the client token: the entity returned is built from that answer.
\<close>

theorem kubernetes_login_request_witness:
  "VaultKubernetesAuth (JObject [(''role'', JString ''app'')]) None =
     Inr \<lparr>mount = ''kubernetes'', role = JString ''app'', filePath = token_path\<rparr> \<and>
   authenticate (echo_env ''jwt-A'')
       \<lparr>mount = ''kubernetes'', role = JString ''app'', filePath = token_path\<rparr> =
     ([LogInfo ''making authentication request: role_id=%s'' [JUndefined],
       ReadFile token_path,
       ConsoleLog ''File is contains token jwt-A'',
       MakeRequest ''POST'' ''/auth/kubernetes/login''
         (JObject [(''role'', JString ''app''), (''jwt'', JString ''jwt-A'')]),
       LogDebug ''receive token: %s'' [JString ''token-for-jwt-A'']],
      Resolved (JString ''token-for-jwt-A'')) \<and>
   readFileSync (echo_env ''jwt-A'') token_path = Some ''jwt-A'' \<and>
   makeRequest (echo_env ''jwt-A'') ''POST'' ''/auth/kubernetes/login''
       (JObject [(''role'', JString ''app''), (''jwt'', JString ''jwt-A'')]) =
     Inr (JObject [(''auth'', JObject [(''client_token'', JString ''token-for-jwt-A'')])]) \<and>
   get_prop (JObject [(''auth'', JObject [(''client_token'', JString ''token-for-jwt-A'')])])
       ''auth'' =
     Inr (JObject [(''client_token'', JString ''token-for-jwt-A'')]) \<and>
   get_prop (JObject [(''client_token'', JString ''token-for-jwt-A'')]) ''client_token'' =
     Inr (JString ''token-for-jwt-A'') \<and>
   getTokenEntity (echo_env ''jwt-A'') (JString ''token-for-jwt-A'') =
     Inr (JString ''token-for-jwt-A'') \<and>
   (\<exists>jwt r res au tok.
      readFileSync (echo_env ''jwt-A'') token_path = Some jwt \<and>
      get_prop (JObject [(''role'', JString ''app'')]) ''role'' = Inr r \<and>
      io_calls
        [LogInfo ''making authentication request: role_id=%s'' [JUndefined],
         ReadFile token_path,
         ConsoleLog ''File is contains token jwt-A'',
         MakeRequest ''POST'' ''/auth/kubernetes/login''
           (JObject [(''role'', JString ''app''), (''jwt'', JString ''jwt-A'')]),
         LogDebug ''receive token: %s'' [JString ''token-for-jwt-A'']] =
        [ReadFile token_path,
         MakeRequest ''POST'' (''/auth/'' @ mount_or_default None @ ''/login'')
           (JObject [(''role'', r), (''jwt'', JString jwt)])] \<and>
      makeRequest (echo_env ''jwt-A'') ''POST'' (''/auth/'' @ mount_or_default None @ ''/login'')
        (JObject [(''role'', r), (''jwt'', JString jwt)]) = Inr res \<and>
      get_prop res ''auth'' = Inr au \<and>
      get_prop au ''client_token'' = Inr tok \<and>
      getTokenEntity (echo_env ''jwt-A'') tok = Inr (JString ''token-for-jwt-A''))"
proof -
  let ?a = "\<lparr>mount = ''kubernetes'', role = JString ''app'', filePath = token_path\<rparr>"
  have h2: "authenticate (echo_env ''jwt-A'') ?a =
     ([LogInfo ''making authentication request: role_id=%s'' [JUndefined],
       ReadFile token_path,
       ConsoleLog ''File is contains token jwt-A'',
       MakeRequest ''POST'' ''/auth/kubernetes/login''
         (JObject [(''role'', JString ''app''), (''jwt'', JString ''jwt-A'')]),
       LogDebug ''receive token: %s'' [JString ''token-for-jwt-A'']],
      Resolved (JString ''token-for-jwt-A''))"
    by (simp add: authenticate_def echo_env_def login_path_def login_body_def client_token_def)
  have k1: "readFileSync (echo_env ''jwt-A'') token_path = Some ''jwt-A''"
    by (simp add: echo_env_def)
  have k2: "makeRequest (echo_env ''jwt-A'') ''POST'' ''/auth/kubernetes/login''
       (JObject [(''role'', JString ''app''), (''jwt'', JString ''jwt-A'')]) =
     Inr (JObject [(''auth'', JObject [(''client_token'', JString ''token-for-jwt-A'')])])"
    by (simp add: echo_env_def)
  have k3: "get_prop (JObject [(''auth'', JObject [(''client_token'', JString ''token-for-jwt-A'')])])
       ''auth'' =
     Inr (JObject [(''client_token'', JString ''token-for-jwt-A'')])"
    by simp
  have k4: "get_prop (JObject [(''client_token'', JString ''token-for-jwt-A'')]) ''client_token'' =
     Inr (JString ''token-for-jwt-A'')"
    by simp
  have k5: "getTokenEntity (echo_env ''jwt-A'') (JString ''token-for-jwt-A'') =
     Inr (JString ''token-for-jwt-A'')"
    by (simp add: echo_env_def)
  from construct_app h2 k1 k2 k3 k4 k5 kubernetes_login_request [OF construct_app h2]
  show ?thesis by (intro conjI)
qed

subsection \<open>The configured JWT\<close>

text \<open>
  Claim C10. The optional \<^verbatim>\<open>config.jwt\<close> that the constructor's documentation names is
  ignored. The instance depends on the configuration through \<^verbatim>\<open>config.role\<close> alone, so a
  configuration with another \<^verbatim>\<open>jwt\<close>, or with none, builds the same instance; and the
  \<^verbatim>\<open>jwt\<close> of every request that authentication makes is the content of the file at the
  fixed path.
\<close>

theorem configured_jwt_ignored:
  assumes "get_prop config' ''role'' = get_prop config ''role''"
      and "VaultKubernetesAuth config mnt = Inr a"
      and "MakeRequest meth p body \<in> set (fst (authenticate env a))"
  shows "VaultKubernetesAuth config' mnt = Inr a \<and>
         (\<exists>jwt. readFileSync env token_path = Some jwt \<and>
                body = JObject [(''role'', role a), (''jwt'', JString jwt)])"
proof -
  have c: "VaultKubernetesAuth config' mnt = Inr a"
    using assms(2) unfolding VaultKubernetesAuth_def assms(1) .
  from authenticate_requests [OF assms(3)] obtain jwt where
    rd: "readFileSync env (filePath a) = Some jwt" and b: "body = login_body a jwt"
    by (elim exE conjE) (rule that)
  have "readFileSync env token_path = Some jwt"
    using rd unfolding VaultKubernetesAuth_fields(2) [OF assms(2)] .
  moreover have "body = JObject [(''role'', role a), (''jwt'', JString jwt)]"
    using b unfolding login_body_def .
  ultimately show ?thesis
    using c by (intro conjI exI)
qed

text \<open>A configuration that names a JWT, on a pod whose file holds another one.\<close>

theorem configured_jwt_ignored_witness:
  "get_prop (JObject [(''role'', JString ''app'')]) ''role'' =
     get_prop (JObject [(''role'', JString ''app''), (''jwt'', JString ''configured'')]) ''role'' \<and>
   VaultKubernetesAuth (JObject [(''role'', JString ''app''), (''jwt'', JString ''configured'')]) None =
     Inr \<lparr>mount = ''kubernetes'', role = JString ''app'', filePath = token_path\<rparr> \<and>
   MakeRequest ''POST'' ''/auth/kubernetes/login''
       (JObject [(''role'', JString ''app''), (''jwt'', JString ''from-file'')])
     \<in> set (fst (authenticate (pod_env ''from-file'')
                    \<lparr>mount = ''kubernetes'', role = JString ''app'', filePath = token_path\<rparr>)) \<and>
   VaultKubernetesAuth (JObject [(''role'', JString ''app'')]) None =
     Inr \<lparr>mount = ''kubernetes'', role = JString ''app'', filePath = token_path\<rparr> \<and>
   readFileSync (pod_env ''from-file'') token_path = Some ''from-file''"
proof -
  let ?a = "\<lparr>mount = ''kubernetes'', role = JString ''app'', filePath = token_path\<rparr>"
  have h1: "get_prop (JObject [(''role'', JString ''app'')]) ''role'' =
     get_prop (JObject [(''role'', JString ''app''), (''jwt'', JString ''configured'')]) ''role''"
    by simp
  have h2: "VaultKubernetesAuth
              (JObject [(''role'', JString ''app''), (''jwt'', JString ''configured'')]) None =
            Inr ?a"
    by (simp add: VaultKubernetesAuth_def VaultBaseAuth_def mount_or_default_def)
  have h3: "MakeRequest ''POST'' ''/auth/kubernetes/login''
       (JObject [(''role'', JString ''app''), (''jwt'', JString ''from-file'')])
     \<in> set (fst (authenticate (pod_env ''from-file'') ?a))"
    by (simp add: pod_env_run)
  have h4: "readFileSync (pod_env ''from-file'') token_path = Some ''from-file''"
    by (simp add: pod_env_def)
  from configured_jwt_ignored [OF h1 h2 h3] have
    "VaultKubernetesAuth (JObject [(''role'', JString ''app'')]) None = Inr ?a" ..
  with h1 h2 h3 h4 show ?thesis by (intro conjI)
qed

section \<open>Properties of the injection\<close>


















end
